theory Spec2Isabelle
  imports Complex_Main
begin

section \<open>JavaScript values\<close>

text \<open>
  A property of a props object is absent (\<open>undefined\<close>), \<open>null\<close>, or holds a value.
  The source tells the two empty values apart (\<open>!== null\<close>, default parameters), so the
  model keeps both.
\<close>

datatype 'a js = Undefined | Null | Def 'a

text \<open>Truthiness of a value that, when present, is an object or an array.\<close>

fun truthy :: "'a js \<Rightarrow> bool" where
  "truthy (Def _) = True"
| "truthy _ = False"

text \<open>\<open>a && f(a)\<close>: the left operand itself when it is falsy, the right one otherwise.\<close>

fun js_and :: "'a js \<Rightarrow> ('a \<Rightarrow> 'b js) \<Rightarrow> 'b js" where
  "js_and Undefined f = Undefined"
| "js_and Null f = Null"
| "js_and (Def x) f = f x"

text \<open>\<open>xs[i]\<close>: reading an array out of range, or at \<open>null\<close>/\<open>undefined\<close>, gives \<open>undefined\<close>.\<close>

fun index :: "'a list \<Rightarrow> nat js \<Rightarrow> 'a js" where
  "index xs (Def i) = (if i < length xs then Def (xs ! i) else Undefined)"
| "index xs _ = Undefined"

datatype error = TypeError

text \<open>\<open>x.f\<close>: reading a property of \<open>null\<close> or \<open>undefined\<close> throws.\<close>

fun get :: "'a js \<Rightarrow> ('a \<Rightarrow> 'b) \<Rightarrow> error + 'b" where
  "get (Def x) f = Inr (f x)"
| "get _ f = Inl TypeError"

text \<open>Sequencing of statements that may throw.\<close>

fun ebind :: "error + 'a \<Rightarrow> ('a \<Rightarrow> error + 'b) \<Rightarrow> error + 'b" where
  "ebind (Inl e) f = Inl e"
| "ebind (Inr x) f = f x"

text \<open>
  A JavaScript number: a finite value (comparison, minimum and maximum of doubles are
  exact, so a real stands for it) or one of the three non-finite values.
\<close>

datatype number = Num real | NaN | PosInfinity | NegInfinity

fun Math_min :: "number \<Rightarrow> number \<Rightarrow> number" where
  "Math_min NaN y = NaN"
| "Math_min x NaN = NaN"
| "Math_min NegInfinity y = NegInfinity"
| "Math_min x NegInfinity = NegInfinity"
| "Math_min PosInfinity y = y"
| "Math_min x PosInfinity = x"
| "Math_min (Num a) (Num b) = Num (min a b)"

fun Math_max :: "number \<Rightarrow> number \<Rightarrow> number" where
  "Math_max NaN y = NaN"
| "Math_max x NaN = NaN"
| "Math_max PosInfinity y = PosInfinity"
| "Math_max x PosInfinity = PosInfinity"
| "Math_max NegInfinity y = y"
| "Math_max x NegInfinity = x"
| "Math_max (Num a) (Num b) = Num (max a b)"

text \<open>
  \<open>lodash.isequal\<close> is deep value equality (\<open>NaN\<close> equal to itself, \<open>null\<close> different
  from \<open>undefined\<close>): equality of the modelled values.
\<close>

definition isEqual :: "'a \<Rightarrow> 'a \<Rightarrow> bool" where
  "isEqual a b = (a = b)"

section \<open>The data of the trip-search state\<close>

type_synonym coords = "number \<times> number"

record latlon =
  lat :: number
  lon :: number

record place = latlon +
  name :: string

record leg =
  steps :: "latlon list"

record itinerary =
  legs :: "leg list"

record query =
  from' :: "place js"
  to' :: "place js"
  intermediatePlaces :: "place js list js"

text \<open>\<open>[x.lat, x.lon]\<close> of a place or a step.\<close>

definition coords_of :: "'a latlon_scheme js \<Rightarrow> error + coords" where
  "coords_of x = ebind (get x lat) (\<lambda>la. ebind (get x lon) (\<lambda>lo. Inr (la, lo)))"

section \<open>Leaflet: bounds and the map handle\<close>

text \<open>
  Leaflet's \<open>Bounds\<close> and \<open>LatLngBounds\<close>: no corner at all before the first point is
  added (\<open>None\<close>), the minimum and the maximum corner afterwards. \<open>bounds_extend\<close> is the
  library's \<open>extend\<close>: the first point sets both corners, a later one widens them.
\<close>

type_synonym region = "(coords \<times> coords) option"

fun bounds_extend :: "region \<Rightarrow> coords \<Rightarrow> region" where
  "bounds_extend None p = Some (p, p)"
| "bounds_extend (Some ((x0, y0), (x1, y1))) (x, y) =
     Some ((Math_min x x0, Math_min y y0), (Math_max x x1, Math_max y y1))"

text \<open>\<open>L.bounds(points)\<close>: the bounds of the listed points.\<close>

definition L_bounds :: "coords list \<Rightarrow> region" where
  "L_bounds points = foldl bounds_extend None points"

text \<open>\<open>getBottomLeft\<close> is \<open>(min.x, max.y)\<close>, \<open>getTopRight\<close> is \<open>(max.x, min.y)\<close>.\<close>

fun getBottomLeft :: "region \<Rightarrow> error + coords" where
  "getBottomLeft (Some ((x0, y0), (x1, y1))) = Inr (x0, y1)"
| "getBottomLeft None = Inl TypeError"

fun getTopRight :: "region \<Rightarrow> error + coords" where
  "getTopRight (Some ((x0, y0), (x1, y1))) = Inr (x1, y0)"
| "getTopRight None = Inl TypeError"

text \<open>
  Modelled from the spec: the equality of two Regions, which the source asks of
  Leaflet's \<open>equals\<close>: "Two Regions are equal iff their corners are equal". A missing
  argument is equal to nothing; the source calls it on present bounds only.
\<close>

fun equals :: "region js \<Rightarrow> region js \<Rightarrow> bool" where
  "equals (Def a) (Def b) = (a = b)"
| "equals _ _ = False"

text \<open>The map handle, reduced to what the source reads from it: \<open>map.getBounds()\<close>.\<close>

record map_handle =
  getBounds :: region

record leaflet_ctx =
  map' :: "map_handle js"

section \<open>Props\<close>

record props =
  activeLeg :: "nat js"
  activeStep :: "nat js"
  itinerary :: "itinerary js"
  itineraryView :: "string js"
  popupLocation :: "place js"
  query :: "query js"
  leaflet :: "leaflet_ctx js"

text \<open>The object \<open>{}\<close>, and \<open>props || {}\<close>.\<close>

definition empty_props :: props where
  "empty_props =
     \<lparr>activeLeg = Undefined, activeStep = Undefined, itinerary = Undefined,
      itineraryView = Undefined, popupLocation = Undefined, query = Undefined,
      leaflet = Undefined\<rparr>"

fun or_empty :: "props js \<Rightarrow> props" where
  "or_empty (Def p) = p"
| "or_empty _ = empty_props"

section \<open>What the component consumes from outside\<close>

text \<open>
  \<open>coreUtils.ui.isMobile()\<close> and \<open>coreUtils.map.isValidLatLng\<close> belong to a library,
  \<open>getLeafletItineraryBounds\<close> and \<open>getLeafletLegBounds\<close> to \<open>util/itinerary\<close>, which is
  not among the sources: the component is verified for any of them. The leg helper is
  handed \<open>legs[activeLeg]\<close>, which may be \<open>undefined\<close>, and may throw.
\<close>

record env =
  isMobile :: bool
  isValidLatLng :: "coords \<Rightarrow> bool"
  getLeafletItineraryBounds :: "itinerary \<Rightarrow> region"
  getLeafletLegBounds :: "leg js \<Rightarrow> error + region"

section \<open>Calls on the map and scheduled tasks\<close>

text \<open>
  \<open>fitBounds\<close> is called with a bounds value (rules 2, 3, 4, 7) or with an array of two
  corners (rule 5), and with an options object or none.
\<close>

datatype fit_arg = Bounds "region js" | Corners coords coords

type_synonym options = "(string \<times> nat list) list"

datatype map_call =
  InvalidateSize bool
| FitBounds fit_arg "options option"
| PanTo coords

text \<open>What the arrow function handed to \<open>setTimeout\<close> has captured.\<close>

record task =
  t_newProps :: props
  t_bounds :: "region js"
  t_map :: map_handle

datatype effect = MapCall map_call | SetTimeout task nat

section \<open>bounds-updating-overlay.js\<close>

text \<open>
  \<open>extendBoundsByPlaces\<close> widens the bounds in place; the model returns the widened
  bounds. The default \<open>places = []\<close> stands in for \<open>undefined\<close> only: \<open>null.filter\<close>
  throws.
\<close>

fun extendByPlace :: "env \<Rightarrow> region \<Rightarrow> place js \<Rightarrow> region" where
  "extendByPlace E bounds (Def place) =
     (let coords = (lat place, lon place)
      in if isValidLatLng E coords then bounds_extend bounds coords else bounds)"
| "extendByPlace E bounds _ = bounds"

definition extendBoundsByPlaces :: "env \<Rightarrow> region \<Rightarrow> place js list js \<Rightarrow> error + region" where
  "extendBoundsByPlaces E bounds places0 =
     (case (case places0 of Undefined \<Rightarrow> Def [] | p \<Rightarrow> p) of
        Def places \<Rightarrow> Inr (foldl (extendByPlace E) bounds (filter truthy places))
      | _ \<Rightarrow> Inl TypeError)"

definition BOUNDS_PADDING :: "nat list" where
  "BOUNDS_PADDING = [30, 30]"

text \<open>
  \<open>_fitItineraryViewToMap\<close> only schedules; \<open>timeout_callback\<close> is the body of the
  arrow function, run when the timer fires: the calls it makes on the map, and the error
  that ended it, if any.
\<close>

definition fitItineraryViewToMap :: "props \<Rightarrow> region js \<Rightarrow> map_handle \<Rightarrow> effect" where
  "fitItineraryViewToMap newProps bounds m =
     SetTimeout \<lparr>t_newProps = newProps, t_bounds = bounds, t_map = m\<rparr> 250"

definition timeout_callback :: "env \<Rightarrow> task \<Rightarrow> map_call list \<times> error option" where
  "timeout_callback E t =
     (let newProps = t_newProps t; bounds = t_bounds t
      in if truthy (itinerary newProps) then
           if activeLeg newProps \<noteq> Null then
             (case ebind (get (itinerary newProps) legs)
                     (\<lambda>ls. getLeafletLegBounds E (index ls (activeLeg newProps))) of
                Inl e \<Rightarrow> ([InvalidateSize True], Some e)
              | Inr r \<Rightarrow>
                  ([InvalidateSize True,
                    FitBounds (Bounds (Def r)) (Some [(''ITINERARY_MAP_PADDING'', BOUNDS_PADDING)])],
                   None))
           else
             ([InvalidateSize True,
               FitBounds (Bounds bounds) (Some [(''ITINERARY_MAP_PADDING'', BOUNDS_PADDING)])],
              None)
         else ([InvalidateSize True], None))"

text \<open>
  \<open>updateBounds\<close>: the effects of one run, in order, or the error that ended it. No
  branch has an effect before it can throw.
\<close>

definition updateBounds :: "env \<Rightarrow> props js \<Rightarrow> props js \<Rightarrow> error + effect list" where
  "updateBounds E oldProps0 newProps0 =
     (let oldProps = or_empty oldProps0;
          newProps = or_empty newProps0
      in if truthy (popupLocation oldProps) \<or> truthy (popupLocation newProps) then Inr []
         else ebind (get (leaflet newProps) map') (\<lambda>map0.
           case map0 of
             Def m \<Rightarrow>
              (let newFrom = js_and (query newProps) from';
                   newItinBounds =
                     js_and (itinerary newProps) (\<lambda>i. Def (getLeafletItineraryBounds E i));
                   newTo = js_and (query newProps) to';
                   oldFrom = js_and (query oldProps) from';
                   oldItinBounds =
                     js_and (itinerary oldProps) (\<lambda>i. Def (getLeafletItineraryBounds E i));
                   oldTo = js_and (query oldProps) to';
                   fromChanged = (\<not> isEqual oldFrom newFrom);
                   toChanged = (\<not> isEqual oldTo newTo);
                   oldIntermediate = js_and (query oldProps) intermediatePlaces;
                   newIntermediate = js_and (query newProps) intermediatePlaces;
                   intermediateChanged = (\<not> isEqual oldIntermediate newIntermediate);
                   itineraryViewChanged = (itineraryView oldProps \<noteq> itineraryView newProps)
               in if itineraryViewChanged then
                    Inr [fitItineraryViewToMap newProps newItinBounds m]
                  else if (\<not> truthy oldItinBounds \<and> truthy newItinBounds) \<or>
                          (truthy oldItinBounds \<and> truthy newItinBounds \<and>
                           \<not> equals oldItinBounds newItinBounds) then
                    Inr [MapCall (FitBounds (Bounds newItinBounds)
                                    (Some [(''padding'', BOUNDS_PADDING)]))]
                  else if truthy (itinerary newProps) \<and>
                          activeLeg newProps \<noteq> activeLeg oldProps \<and>
                          activeLeg newProps \<noteq> Null then
                    ebind (get (itinerary newProps) legs) (\<lambda>ls.
                    ebind (getLeafletLegBounds E (index ls (activeLeg newProps))) (\<lambda>r.
                      Inr [MapCall (FitBounds (Bounds (Def r))
                                      (Some [(''padding'', BOUNDS_PADDING)]))]))
                  else if truthy newFrom \<and> truthy newTo \<and> (fromChanged \<or> toChanged) then
                    if \<not> isMobile E then
                      ebind (coords_of newFrom) (\<lambda>f.
                      ebind (coords_of newTo) (\<lambda>t.
                      ebind (extendBoundsByPlaces E (L_bounds [f, t]) newIntermediate) (\<lambda>bounds.
                      ebind (getBottomLeft bounds) (\<lambda>(left, bottom).
                      ebind (getTopRight bounds) (\<lambda>(right, top).
                        Inr [MapCall (FitBounds (Corners (left, bottom) (right, top))
                                        (Some [(''padding'', BOUNDS_PADDING)]))])))))
                    else Inr []
                  else if truthy newFrom \<and> fromChanged then
                    ebind (coords_of newFrom) (\<lambda>c. Inr [MapCall (PanTo c)])
                  else if truthy newTo \<and> toChanged then
                    ebind (coords_of newTo) (\<lambda>c. Inr [MapCall (PanTo c)])
                  else if truthy newIntermediate \<and> intermediateChanged then
                    ebind (extendBoundsByPlaces E (getBounds m) newIntermediate) (\<lambda>bounds.
                      Inr [MapCall (FitBounds (Bounds (Def bounds)) None)])
                  else if truthy (itinerary newProps) \<and>
                          activeLeg newProps \<noteq> Null \<and>
                          activeStep newProps \<noteq> Null \<and>
                          activeStep newProps \<noteq> activeStep oldProps then
                    ebind (get (itinerary newProps) legs) (\<lambda>ls.
                    ebind (get (index ls (activeLeg newProps)) steps) (\<lambda>ss.
                    ebind (coords_of (index ss (activeStep newProps))) (\<lambda>c.
                      Inr [MapCall (PanTo c)])))
                  else Inr [])
           | _ \<Rightarrow> Inr []))"

section \<open>The component's life cycle and the timers\<close>

text \<open>
  Around the component: the tasks handed to \<open>setTimeout\<close> that have not fired yet, oldest
  first (every delay is the same 250 ms, so they fire in that order), and the calls made
  on the map so far. The source keeps no timer handle and calls \<open>clearTimeout\<close> nowhere.
\<close>

record world =
  pending :: "task list"
  calls :: "map_call list"

fun perform :: "world \<Rightarrow> effect \<Rightarrow> world" where
  "perform w (MapCall c) = w\<lparr>calls := calls w @ [c]\<rparr>"
| "perform w (SetTimeout t d) = w\<lparr>pending := pending w @ [t]\<rparr>"

definition componentDidMount :: "env \<Rightarrow> props \<Rightarrow> world \<Rightarrow> error + world" where
  "componentDidMount E this_props w =
     ebind (updateBounds E Null (Def this_props)) (\<lambda>es. Inr (foldl perform w es))"

definition componentDidUpdate :: "env \<Rightarrow> props \<Rightarrow> props \<Rightarrow> world \<Rightarrow> error + world" where
  "componentDidUpdate E prevProps this_props w =
     ebind (updateBounds E (Def prevProps) (Def this_props)) (\<lambda>es. Inr (foldl perform w es))"

text \<open>\<open>componentWillUnmount () {}\<close>: the body is empty.\<close>

definition componentWillUnmount :: "world \<Rightarrow> world" where
  "componentWillUnmount w = w"

text \<open>The oldest pending timer fires: its callback runs, mounted component or not.\<close>

definition timer_fires :: "env \<Rightarrow> world \<Rightarrow> world" where
  "timer_fires E w =
     (case pending w of
        [] \<Rightarrow> w
      | t # ts \<Rightarrow> w\<lparr>pending := ts, calls := calls w @ fst (timeout_callback E t)\<rparr>)"

section \<open>One concrete environment\<close>

text \<open>
  Modelled from the spec: \<open>coreUtils.map.isValidLatLng\<close>, the library's test of a
  coordinate pair, which is not among the sources: "a place has non-finite or
  out-of-range coordinates" is what it rejects.
\<close>

fun isValidLatLng_spec :: "coords \<Rightarrow> bool" where
  "isValidLatLng_spec (Num a, Num b) = (- 90 \<le> a \<and> a \<le> 90 \<and> - 180 \<le> b \<and> b \<le> 180)"
| "isValidLatLng_spec _ = False"

text \<open>
  Modelled from the spec: \<open>getLeafletLegBounds\<close> and \<open>getLeafletItineraryBounds\<close> of
  \<open>util/itinerary\<close>, which is not among the sources: "a Leg has an aggregate Region
  derived from its steps", an Itinerary "has an aggregate Region derived from all legs",
  and "a Region computed from zero valid Points is empty". What the leg helper does with
  \<open>undefined\<close> the spec does not say; here it throws, as reading a property of
  \<open>undefined\<close> does.
\<close>

definition step_points :: "leg \<Rightarrow> coords list" where
  "step_points l = filter isValidLatLng_spec (map (\<lambda>s. (lat s, lon s)) (steps l))"

definition legRegion :: "leg \<Rightarrow> region" where
  "legRegion l = foldl bounds_extend None (step_points l)"

definition itineraryRegion :: "itinerary \<Rightarrow> region" where
  "itineraryRegion i = foldl bounds_extend None (concat (map step_points (legs i)))"

definition env0 :: "bool \<Rightarrow> env" where
  "env0 mobile =
     \<lparr>isMobile = mobile, isValidLatLng = isValidLatLng_spec,
      getLeafletItineraryBounds = itineraryRegion,
      getLeafletLegBounds = (\<lambda>l. ebind (get l id) (\<lambda>x. Inr (legRegion x)))\<rparr>"

text \<open>Concrete values for the examples: a map showing some region, places, an itinerary.\<close>

definition map0 :: map_handle where
  "map0 = \<lparr>getBounds = Some ((Num 47, Num (- 123)), (Num 48, Num (- 122)))\<rparr>"

definition placeA :: place where
  "placeA = \<lparr>lat = Num 47.6, lon = Num (- 122.3), name = ''A''\<rparr>"

definition placeB :: place where
  "placeB = \<lparr>lat = Num 47.61, lon = Num (- 122.33), name = ''B''\<rparr>"

definition itin1 :: itinerary where
  "itin1 = \<lparr>legs = [\<lparr>steps = [\<lparr>lat = Num 47.6, lon = Num (- 122.3)\<rparr>,
                                 \<lparr>lat = Num 47.7, lon = Num (- 122.4)\<rparr>]\<rparr>]\<rparr>"

definition itin2 :: itinerary where
  "itin2 = \<lparr>legs = [\<lparr>steps = [\<lparr>lat = Num 47.6, lon = Num (- 122.3)\<rparr>]\<rparr>,
                    \<lparr>steps = [\<lparr>lat = Num 47.8, lon = Num (- 122.5)\<rparr>]\<rparr>]\<rparr>"

text \<open>The props of a mounted component with nothing searched yet: \<open>null\<close> everywhere.\<close>

definition props0 :: props where
  "props0 =
     \<lparr>activeLeg = Null, activeStep = Null, itinerary = Null, itineraryView = Undefined,
      popupLocation = Null,
      query = Def \<lparr>from' = Null, to' = Null, intermediatePlaces = Def []\<rparr>,
      leaflet = Def \<lparr>map' = Def map0\<rparr>\<rparr>"

text \<open>A query with both endpoints, and the props of a first search result.\<close>

definition queryAB :: query where
  "queryAB = \<lparr>from' = Def placeA, to' = Def placeB, intermediatePlaces = Def []\<rparr>"

definition props1 :: props where
  "props1 = props0\<lparr>itinerary := Def itin1, query := Def queryAB\<rparr>"

text \<open>
  Scenario 5: the view mode becomes \<open>detail\<close> with a leg active, then \<open>list\<close>; the tasks
  the two changes schedule, and the fit each of them makes when it fires.
\<close>

definition propsD :: props where
  "propsD = props0\<lparr>activeLeg := Def 1, itinerary := Def itin2, itineraryView := Def ''detail''\<rparr>"

definition propsL :: props where
  "propsL = propsD\<lparr>itineraryView := Def ''list''\<rparr>"

definition taskD :: task where
  "taskD = \<lparr>t_newProps = propsD, t_bounds = Def (itineraryRegion itin2), t_map = map0\<rparr>"

definition taskL :: task where
  "taskL = \<lparr>t_newProps = propsL, t_bounds = Def (itineraryRegion itin2), t_map = map0\<rparr>"

definition world0 :: world where
  "world0 = \<lparr>pending = [], calls = []\<rparr>"

definition fitLeg1 :: map_call where
  "fitLeg1 = FitBounds (Bounds (Def (Some ((Num 47.8, Num (- 122.5)), (Num 47.8, Num (- 122.5))))))
               (Some [(''ITINERARY_MAP_PADDING'', [30, 30])])"







section \<open>Helper lemmas\<close>

lemma truthy_Def_iff: "truthy x = (\<exists>a. x = Def a)"
  by (cases x) auto

lemma rule3_guard:
  "((\<not> truthy (js_and x (\<lambda>i. Def (f i))) \<and> truthy (js_and y (\<lambda>i. Def (f i)))) \<or>
    (truthy (js_and x (\<lambda>i. Def (f i))) \<and> truthy (js_and y (\<lambda>i. Def (f i))) \<and>
     \<not> equals (js_and x (\<lambda>i. Def (f i))) (js_and y (\<lambda>i. Def (f i))))) =
   (\<exists>b. y = Def b \<and> (\<forall>a. x = Def a \<longrightarrow> f a \<noteq> f b))"
  by (cases x; cases y) auto

text \<open>
  Past the two gates (no popup, a map handle), \<open>updateBounds\<close> is the ladder of the
  source, each guard named.
\<close>

lemma updateBounds_ladder:
  assumes "old = or_empty oldProps" and "new = or_empty newProps"
    and "\<not> truthy (popupLocation old)" and "\<not> truthy (popupLocation new)"
    and "leaflet new = Def lf" and "map' lf = Def m"
    and "newFrom = js_and (query new) from'" and "newTo = js_and (query new) to'"
    and "oldFrom = js_and (query old) from'" and "oldTo = js_and (query old) to'"
    and "oldInt = js_and (query old) intermediatePlaces"
    and "newInt = js_and (query new) intermediatePlaces"
    and "newB = js_and (itinerary new) (\<lambda>i. Def (getLeafletItineraryBounds E i))"
    and "oldB = js_and (itinerary old) (\<lambda>i. Def (getLeafletItineraryBounds E i))"
    and "g2 = (itineraryView old \<noteq> itineraryView new)"
    and "g3 = ((\<not> truthy oldB \<and> truthy newB) \<or>
               (truthy oldB \<and> truthy newB \<and> \<not> equals oldB newB))"
    and "g4 = (truthy (itinerary new) \<and> activeLeg new \<noteq> activeLeg old \<and>
               activeLeg new \<noteq> Null)"
    and "g5 = (truthy newFrom \<and> truthy newTo \<and> (oldFrom \<noteq> newFrom \<or> oldTo \<noteq> newTo))"
    and "g6 = (truthy newFrom \<and> oldFrom \<noteq> newFrom)"
    and "g6' = (truthy newTo \<and> oldTo \<noteq> newTo)"
    and "g7 = (truthy newInt \<and> oldInt \<noteq> newInt)"
    and "g8 = (truthy (itinerary new) \<and> activeLeg new \<noteq> Null \<and> activeStep new \<noteq> Null \<and>
               activeStep new \<noteq> activeStep old)"
  shows "updateBounds E oldProps newProps =
    (if g2 then Inr [fitItineraryViewToMap new newB m]
     else if g3 then
       Inr [MapCall (FitBounds (Bounds newB) (Some [(''padding'', BOUNDS_PADDING)]))]
     else if g4 then
       ebind (get (itinerary new) legs) (\<lambda>ls.
       ebind (getLeafletLegBounds E (index ls (activeLeg new))) (\<lambda>r.
         Inr [MapCall (FitBounds (Bounds (Def r)) (Some [(''padding'', BOUNDS_PADDING)]))]))
     else if g5 then
       if \<not> isMobile E then
         ebind (coords_of newFrom) (\<lambda>f.
         ebind (coords_of newTo) (\<lambda>t.
         ebind (extendBoundsByPlaces E (L_bounds [f, t]) newInt) (\<lambda>bounds.
         ebind (getBottomLeft bounds) (\<lambda>(left, bottom).
         ebind (getTopRight bounds) (\<lambda>(right, top).
           Inr [MapCall (FitBounds (Corners (left, bottom) (right, top))
                           (Some [(''padding'', BOUNDS_PADDING)]))])))))
       else Inr []
     else if g6 then ebind (coords_of newFrom) (\<lambda>c. Inr [MapCall (PanTo c)])
     else if g6' then ebind (coords_of newTo) (\<lambda>c. Inr [MapCall (PanTo c)])
     else if g7 then
       ebind (extendBoundsByPlaces E (getBounds m) newInt) (\<lambda>bounds.
         Inr [MapCall (FitBounds (Bounds (Def bounds)) None)])
     else if g8 then
       ebind (get (itinerary new) legs) (\<lambda>ls.
       ebind (get (index ls (activeLeg new)) steps) (\<lambda>ss.
       ebind (coords_of (index ss (activeStep new))) (\<lambda>c. Inr [MapCall (PanTo c)])))
     else Inr [])"
proof -
  have gate: "\<not> (truthy (popupLocation (or_empty oldProps)) \<or>
                  truthy (popupLocation (or_empty newProps)))"
    using assms(1-4) by simp
  have lf: "get (leaflet (or_empty newProps)) map' = Inr (Def m)"
    using assms(2,5,6) by simp
  show ?thesis
    unfolding updateBounds_def Let_def isEqual_def
    unfolding if_not_P [OF gate] lf ebind.simps js.case
    unfolding assms(7-)
    unfolding assms(1,2)
    by (rule refl)
qed

lemmas ladder =
  updateBounds_ladder [OF _ _ _ _ _ _ refl refl refl refl refl refl refl refl
                          refl refl refl refl refl refl refl refl]

text \<open>Without a map handle nothing is done.\<close>

lemma updateBounds_no_map:
  assumes "new = or_empty newProps" and "leaflet new = Def lf" and "\<not> truthy (map' lf)"
  shows "updateBounds E oldProps newProps = Inr []"
proof -
  have lf: "get (leaflet (or_empty newProps)) map' = Inr (map' lf)"
    using assms(1,2) by simp
  show ?thesis
    unfolding updateBounds_def Let_def lf ebind.simps
    using assms(3) by (cases "map' lf") simp_all
qed

lemma rule3_no_match:
  assumes "\<forall>b. itinerary new = Def b \<longrightarrow>
           (\<exists>a. itinerary old = Def a \<and> f a = f b)"
  shows "((\<not> truthy (js_and (itinerary old) (\<lambda>i. Def (f i))) \<and>
           truthy (js_and (itinerary new) (\<lambda>i. Def (f i)))) \<or>
          (truthy (js_and (itinerary old) (\<lambda>i. Def (f i))) \<and>
           truthy (js_and (itinerary new) (\<lambda>i. Def (f i))) \<and>
           \<not> equals (js_and (itinerary old) (\<lambda>i. Def (f i)))
                     (js_and (itinerary new) (\<lambda>i. Def (f i))))) = False"
  unfolding rule3_guard using assms by auto

text \<open>A changed \<open>itineraryView\<close> schedules one task and does nothing else.\<close>

lemma view_change_schedules:
  assumes old: "old = or_empty oldProps" and new: "new = or_empty newProps"
    and p1: "\<not> truthy (popupLocation old)" and p2: "\<not> truthy (popupLocation new)"
    and lf: "leaflet new = Def lf" and m: "map' lf = Def m"
    and view: "itineraryView old \<noteq> itineraryView new"
  shows "updateBounds E oldProps newProps =
     Inr [SetTimeout \<lparr>t_newProps = new,
            t_bounds = js_and (itinerary new) (\<lambda>i. Def (getLeafletItineraryBounds E i)),
            t_map = m\<rparr> 250]"
proof -
  note L = ladder [OF old new p1 p2 lf m, of E]
  have g2: "(itineraryView old \<noteq> itineraryView new) = True"
    using view by simp
  show ?thesis
    by (simp only: L g2 if_True fitItineraryViewToMap_def)
qed




section \<open>The claims\<close>

subsection \<open>C1: a popup suppresses every viewport change\<close>

text \<open>
  C1. Whenever the previous or the current props hold a popup location, \<open>updateBounds\<close>
  returns with no effect: no call on the map and no timer, whatever else changed (also
  on mount, and before the map handle is looked at).
\<close>

theorem popup_active_noop:
  assumes "truthy (popupLocation (or_empty oldProps)) \<or>
           truthy (popupLocation (or_empty newProps))"
  shows "updateBounds E oldProps newProps = Inr []"
  using assms by (simp add: updateBounds_def Let_def)

theorem popup_active_noop_witness:
  "truthy (popupLocation (or_empty (Def (props0\<lparr>popupLocation := Def placeA\<rparr>)))) \<and>
   updateBounds (env0 False) (Def (props0\<lparr>popupLocation := Def placeA\<rparr>))
     (Def (props1\<lparr>itineraryView := Def ''detail''\<rparr>)) = Inr []"
  using popup_active_noop [of "Def (props0\<lparr>popupLocation := Def placeA\<rparr>)"
      "Def (props1\<lparr>itineraryView := Def ''detail''\<rparr>)" "env0 False"]
  by simp

subsection \<open>C2: a changed itinerary region refits the map\<close>

text \<open>
  C2. With no popup on either side, a map handle and an unchanged \<open>itineraryView\<close>: when
  the current props hold an itinerary and the previous ones hold none, or one whose
  region differs, \<open>updateBounds\<close> makes exactly one call, \<open>fitBounds\<close> on the current
  itinerary's region with \<open>{padding: [30, 30]}\<close>. Nothing is assumed about the query, so
  an endpoint change in the same transition does not matter (rule 3 before rule 5).
\<close>

theorem itinerary_bounds_changed_fit:
  assumes old: "old = or_empty oldProps" and new: "new = or_empty newProps"
    and p1: "\<not> truthy (popupLocation old)" and p2: "\<not> truthy (popupLocation new)"
    and lf: "leaflet new = Def lf" and m: "map' lf = Def m"
    and view: "itineraryView old = itineraryView new"
    and b: "itinerary new = Def b"
    and differ: "\<not> truthy (itinerary old) \<or>
         (\<exists>a. itinerary old = Def a \<and>
              getLeafletItineraryBounds E a \<noteq> getLeafletItineraryBounds E b)"
  shows "updateBounds E oldProps newProps =
           Inr [MapCall (FitBounds (Bounds (Def (getLeafletItineraryBounds E b)))
                           (Some [(''padding'', [30, 30])]))]"
proof -
  note L = ladder [OF old new p1 p2 lf m, of E]
  have g2: "(itineraryView old \<noteq> itineraryView new) = False"
    using view by simp
  have "\<exists>b. itinerary new = Def b \<and>
          (\<forall>a. itinerary old = Def a \<longrightarrow>
               getLeafletItineraryBounds E a \<noteq> getLeafletItineraryBounds E b)"
    using b differ by auto
  then have g3: "((\<not> truthy (js_and (itinerary old) (\<lambda>i. Def (getLeafletItineraryBounds E i))) \<and>
      truthy (js_and (itinerary new) (\<lambda>i. Def (getLeafletItineraryBounds E i)))) \<or>
     (truthy (js_and (itinerary old) (\<lambda>i. Def (getLeafletItineraryBounds E i))) \<and>
      truthy (js_and (itinerary new) (\<lambda>i. Def (getLeafletItineraryBounds E i))) \<and>
      \<not> equals (js_and (itinerary old) (\<lambda>i. Def (getLeafletItineraryBounds E i)))
                (js_and (itinerary new) (\<lambda>i. Def (getLeafletItineraryBounds E i))))) = True"
    by (simp only: rule3_guard)
  have nb: "js_and (itinerary new) (\<lambda>i. Def (getLeafletItineraryBounds E i)) =
              Def (getLeafletItineraryBounds E b)"
    using b by simp
  have "updateBounds E oldProps newProps =
      Inr [MapCall (FitBounds (Bounds (js_and (itinerary new)
              (\<lambda>i. Def (getLeafletItineraryBounds E i))))
             (Some [(''padding'', BOUNDS_PADDING)]))]"
    by (simp only: L g2 g3 if_True if_False)
  then show ?thesis
    by (simp only: nb BOUNDS_PADDING_def)
qed

text \<open>
  The itinerary changes from \<open>itin1\<close> to \<open>itin2\<close> while \<open>from\<close> and \<open>to\<close> change too: the
  map is fitted to the region of \<open>itin2\<close>.
\<close>

theorem itinerary_bounds_changed_fit_witness:
  "itineraryRegion itin1 \<noteq> itineraryRegion itin2 \<and>
   updateBounds (env0 False) (Def (props0\<lparr>itinerary := Def itin1\<rparr>))
       (Def (props0\<lparr>itinerary := Def itin2, query := Def queryAB\<rparr>)) =
     Inr [MapCall (FitBounds
            (Bounds (Def (Some ((Num 47.6, Num (- 122.5)), (Num 47.8, Num (- 122.3))))))
            (Some [(''padding'', [30, 30])]))]"
proof -
  have r1: "itineraryRegion itin1 = Some ((Num 47.6, Num (- 122.4)), (Num 47.7, Num (- 122.3)))"
    by (simp add: itineraryRegion_def itin1_def step_points_def)
  have r2: "itineraryRegion itin2 = Some ((Num 47.6, Num (- 122.5)), (Num 47.8, Num (- 122.3)))"
    by (simp add: itineraryRegion_def itin2_def step_points_def)
  have ne: "itineraryRegion itin1 \<noteq> itineraryRegion itin2"
    by (simp add: r1 r2)
  have "updateBounds (env0 False) (Def (props0\<lparr>itinerary := Def itin1\<rparr>))
       (Def (props0\<lparr>itinerary := Def itin2, query := Def queryAB\<rparr>)) =
     Inr [MapCall (FitBounds (Bounds (Def (getLeafletItineraryBounds (env0 False) itin2)))
            (Some [(''padding'', [30, 30])]))]"
    by (rule itinerary_bounds_changed_fit
          [OF refl refl, where lf = "\<lparr>map' = Def map0\<rparr>" and m = map0])
       (simp_all add: props0_def env0_def ne)
  then show ?thesis
    using ne by (simp add: env0_def r2)
qed

subsection \<open>C3: the deferred task is never cancelled\<close>

text \<open>
  C3, as the source has it. The task scheduled by a change of \<open>itineraryView\<close> cannot be
  cancelled: the handle \<open>setTimeout\<close> returns is dropped. An update that changes
  \<open>itineraryView\<close> adds its task behind the tasks still pending and removes none;
  \<open>componentWillUnmount\<close> leaves the world as it is, pending tasks included; and when no
  other task was pending, the timer that fires after the unmount runs the task's calls on
  the map.
\<close>

theorem deferred_fit_never_cancelled:
  assumes p1: "\<not> truthy (popupLocation prevProps)" and p2: "\<not> truthy (popupLocation this_props)"
    and lf: "leaflet this_props = Def lf" and m: "map' lf = Def m"
    and view: "itineraryView prevProps \<noteq> itineraryView this_props"
    and t: "t = \<lparr>t_newProps = this_props,
                  t_bounds = js_and (itinerary this_props) (\<lambda>i. Def (getLeafletItineraryBounds E i)),
                  t_map = m\<rparr>"
    and w': "w' = w\<lparr>pending := pending w @ [t]\<rparr>"
  shows "componentDidUpdate E prevProps this_props w = Inr w' \<and>
         componentWillUnmount w' = w' \<and>
         pending (componentWillUnmount w') = pending w @ [t] \<and>
         (pending w = [] \<longrightarrow>
            timer_fires E (componentWillUnmount w') =
              w\<lparr>pending := [], calls := calls w @ fst (timeout_callback E t)\<rparr>)"
proof -
  have "updateBounds E (Def prevProps) (Def this_props) = Inr [SetTimeout t 250]"
    unfolding t by (rule view_change_schedules [OF _ _ _ _ lf m]) (use p1 p2 view in simp_all)
  then have "componentDidUpdate E prevProps this_props w = Inr w'"
    by (simp add: componentDidUpdate_def w')
  then show ?thesis
    by (simp add: componentWillUnmount_def timer_fires_def w')
qed

text \<open>
  A second change of the view mode, with the first task still pending; then the unmount.
\<close>

theorem deferred_fit_never_cancelled_witness:
  "componentDidUpdate (env0 False) propsD propsL \<lparr>pending = [taskD], calls = []\<rparr> =
     Inr \<lparr>pending = [taskD, taskL], calls = []\<rparr> \<and>
   pending (componentWillUnmount \<lparr>pending = [taskD, taskL], calls = []\<rparr>) = [taskD, taskL]"
  using deferred_fit_never_cancelled
    [where prevProps = propsD and this_props = propsL and lf = "\<lparr>map' = Def map0\<rparr>"
      and m = map0 and E = "env0 False" and t = taskL
      and w = "\<lparr>pending = [taskD], calls = []\<rparr>"
      and w' = "\<lparr>pending = [taskD, taskL], calls = []\<rparr>"]
  by (simp add: propsL_def propsD_def props0_def taskL_def env0_def)

text \<open>
  C3 as stated fails. Mounted with \<open>itineraryView = detail\<close> and then unmounted, the
  component leaves its task pending, and the task calls \<open>invalidateSize\<close> and \<open>fitBounds\<close>
  on the map when its timer fires. A second change of the view mode leaves the first task
  pending beside the second, and both fire.
\<close>

theorem deferred_fit_cancelled_counterexample:
  "componentDidMount (env0 False) propsD world0 = Inr \<lparr>pending = [taskD], calls = []\<rparr> \<and>
   componentWillUnmount \<lparr>pending = [taskD], calls = []\<rparr> = \<lparr>pending = [taskD], calls = []\<rparr> \<and>
   timer_fires (env0 False) (componentWillUnmount \<lparr>pending = [taskD], calls = []\<rparr>) =
     \<lparr>pending = [], calls = [InvalidateSize True, fitLeg1]\<rparr> \<and>
   componentDidUpdate (env0 False) propsD propsL \<lparr>pending = [taskD], calls = []\<rparr> =
     Inr \<lparr>pending = [taskD, taskL], calls = []\<rparr> \<and>
   timer_fires (env0 False) (timer_fires (env0 False) \<lparr>pending = [taskD, taskL], calls = []\<rparr>) =
     \<lparr>pending = [], calls = [InvalidateSize True, fitLeg1, InvalidateSize True, fitLeg1]\<rparr>"
proof -
  have cbD: "timeout_callback (env0 False) taskD = ([InvalidateSize True, fitLeg1], None)"
    by (simp add: timeout_callback_def taskD_def propsD_def props0_def env0_def itin2_def
        legRegion_def step_points_def fitLeg1_def BOUNDS_PADDING_def)
  have cbL: "timeout_callback (env0 False) taskL = ([InvalidateSize True, fitLeg1], None)"
    by (simp add: timeout_callback_def taskL_def propsL_def propsD_def props0_def env0_def
        itin2_def legRegion_def step_points_def fitLeg1_def BOUNDS_PADDING_def)
  have mount: "updateBounds (env0 False) Null (Def propsD) = Inr [SetTimeout taskD 250]"
    unfolding taskD_def
    by (rule view_change_schedules [OF refl refl _ _ _ _ _, where lf = "\<lparr>map' = Def map0\<rparr>",
          THEN trans])
       (simp_all add: propsD_def props0_def empty_props_def env0_def)
  have update: "updateBounds (env0 False) (Def propsD) (Def propsL) = Inr [SetTimeout taskL 250]"
    unfolding taskL_def
    by (rule view_change_schedules [OF refl refl _ _ _ _ _, where lf = "\<lparr>map' = Def map0\<rparr>",
          THEN trans])
       (simp_all add: propsL_def propsD_def props0_def env0_def)
  show ?thesis
    by (simp add: componentDidMount_def componentDidUpdate_def componentWillUnmount_def
        timer_fires_def mount update cbD cbL world0_def)
qed

subsection \<open>C4: invalid places, empty regions and errors\<close>




subsection \<open>C5: an unchanged snapshot changes nothing\<close>

text \<open>
  C5. When the previous and the current props are the same value \<open>S\<close>, \<open>updateBounds\<close>
  has no effect. \<open>S\<close> is any props object of the mounted component, that is, one that
  carries the \<open>leaflet\<close> context the \<open>withLeaflet\<close> wrapper injects (the context is not part
  of the compared snapshot; the map handle inside it may be missing).
\<close>

theorem same_snapshot_noop:
  assumes lf: "leaflet S = Def lf"
  shows "updateBounds E (Def S) (Def S) = Inr []"
proof (cases "truthy (popupLocation S)")
  case True
  then show ?thesis
    by (simp add: updateBounds_def Let_def)
next
  case nopopup: False
  show ?thesis
  proof (cases "map' lf")
    case (Def m)
    have S: "S = or_empty (Def S)" by simp
    note L = ladder [OF S S nopopup nopopup lf Def, of E]
    have g3: "((\<not> truthy (js_and (itinerary S) (\<lambda>i. Def (getLeafletItineraryBounds E i))) \<and>
        truthy (js_and (itinerary S) (\<lambda>i. Def (getLeafletItineraryBounds E i)))) \<or>
       (truthy (js_and (itinerary S) (\<lambda>i. Def (getLeafletItineraryBounds E i))) \<and>
        truthy (js_and (itinerary S) (\<lambda>i. Def (getLeafletItineraryBounds E i))) \<and>
        \<not> equals (js_and (itinerary S) (\<lambda>i. Def (getLeafletItineraryBounds E i)))
                  (js_and (itinerary S) (\<lambda>i. Def (getLeafletItineraryBounds E i))))) = False"
      unfolding rule3_guard by auto
    show ?thesis
      unfolding L g3 by simp
  qed (simp_all add: updateBounds_no_map [OF _ lf])
qed

theorem same_snapshot_noop_witness:
  "updateBounds (env0 False) (Def (props1\<lparr>activeLeg := Def 0, activeStep := Def 1\<rparr>))
     (Def (props1\<lparr>activeLeg := Def 0, activeStep := Def 1\<rparr>)) = Inr []"
  by (rule same_snapshot_noop [where lf = "\<lparr>map' = Def map0\<rparr>"])
     (simp add: props1_def props0_def)

subsection \<open>C6: the padding of the fits\<close>

text \<open>
  C6 fails on the deferred fits of rule 2. Rules 3, 4 and 5 pass \<open>{padding: [30, 30]}\<close>
  and rule 7 passes no options, as the claim says (see \<open>updateBounds_ladder\<close>); the task
  scheduled by a change of \<open>itineraryView\<close> passes the constant under the key
  \<open>ITINERARY_MAP_PADDING\<close> instead, for the active leg and for the whole itinerary alike,
  so its options object has no \<open>padding\<close> entry.
\<close>

theorem deferred_fit_padding_key:
  "updateBounds (env0 False) (Def (propsD\<lparr>itineraryView := Undefined\<rparr>)) (Def propsD) =
     Inr [SetTimeout taskD 250] \<and>
   timeout_callback (env0 False) taskD =
     ([InvalidateSize True,
       FitBounds (Bounds (Def (Some ((Num 47.8, Num (- 122.5)), (Num 47.8, Num (- 122.5))))))
         (Some [(''ITINERARY_MAP_PADDING'', [30, 30])])], None) \<and>
   timeout_callback (env0 False) (taskD\<lparr>t_newProps := propsD\<lparr>activeLeg := Null\<rparr>\<rparr>) =
     ([InvalidateSize True,
       FitBounds (Bounds (Def (Some ((Num 47.6, Num (- 122.5)), (Num 47.8, Num (- 122.3))))))
         (Some [(''ITINERARY_MAP_PADDING'', [30, 30])])], None) \<and>
   map_of [(''ITINERARY_MAP_PADDING'', [30, 30 :: nat])] ''padding'' = None"
proof (intro conjI)
  show "updateBounds (env0 False) (Def (propsD\<lparr>itineraryView := Undefined\<rparr>)) (Def propsD) =
     Inr [SetTimeout taskD 250]"
    unfolding taskD_def
    by (rule view_change_schedules [OF refl refl _ _ _ _ _, where lf = "\<lparr>map' = Def map0\<rparr>",
          THEN trans])
       (simp_all add: propsD_def props0_def env0_def)
  show "timeout_callback (env0 False) taskD =
     ([InvalidateSize True,
       FitBounds (Bounds (Def (Some ((Num 47.8, Num (- 122.5)), (Num 47.8, Num (- 122.5))))))
         (Some [(''ITINERARY_MAP_PADDING'', [30, 30])])], None)"
    by (simp add: timeout_callback_def taskD_def propsD_def props0_def env0_def itin2_def
        legRegion_def step_points_def BOUNDS_PADDING_def)
  show "timeout_callback (env0 False) (taskD\<lparr>t_newProps := propsD\<lparr>activeLeg := Null\<rparr>\<rparr>) =
     ([InvalidateSize True,
       FitBounds (Bounds (Def (Some ((Num 47.6, Num (- 122.5)), (Num 47.8, Num (- 122.3))))))
         (Some [(''ITINERARY_MAP_PADDING'', [30, 30])])], None)"
    by (simp add: timeout_callback_def taskD_def propsD_def props0_def env0_def itin2_def
        itineraryRegion_def step_points_def BOUNDS_PADDING_def)
  show "map_of [(''ITINERARY_MAP_PADDING'', [30, 30 :: nat])] ''padding'' = None"
    by simp
qed

subsection \<open>C7: on a mobile platform the fit to the endpoints is skipped\<close>

text \<open>
  C7. On a platform where \<open>isMobile()\<close> holds, with no popup, the \<open>leaflet\<close> context
  present, and rules 2, 3 and 4 not matching (same \<open>itineraryView\<close>; no itinerary, or
  one whose region did not change; no newly active leg): when \<open>from\<close> and \<open>to\<close> are both
  set in the current query and at least one of them changed -- in particular when both
  changed -- \<open>updateBounds\<close> has no effect. The guard of rule 5 holds, so the later rules
  are not reached, and its body does nothing on mobile.
\<close>

theorem mobile_skips_endpoint_fit:
  assumes old: "old = or_empty oldProps" and new: "new = or_empty newProps"
    and mobile: "isMobile E"
    and p1: "\<not> truthy (popupLocation old)" and p2: "\<not> truthy (popupLocation new)"
    and lf: "leaflet new = Def lf"
    and view: "itineraryView old = itineraryView new"
    and rule3: "\<forall>b. itinerary new = Def b \<longrightarrow>
           (\<exists>a. itinerary old = Def a \<and>
                getLeafletItineraryBounds E a = getLeafletItineraryBounds E b)"
    and rule4: "truthy (itinerary new) \<longrightarrow>
           activeLeg new = activeLeg old \<or> activeLeg new = Null"
    and q: "query new = Def q" and f: "from' q = Def f" and t: "to' q = Def t"
    and changed: "js_and (query old) from' \<noteq> Def f \<or> js_and (query old) to' \<noteq> Def t"
  shows "updateBounds E oldProps newProps = Inr []"
proof (cases "map' lf")
  case (Def m)
  note L = ladder [OF old new p1 p2 lf Def, of E]
  have g2: "(itineraryView old \<noteq> itineraryView new) = False"
    using view by simp
  note g3 = rule3_no_match [OF rule3]
  have g4: "(truthy (itinerary new) \<and> activeLeg new \<noteq> activeLeg old \<and>
             activeLeg new \<noteq> Null) = False"
    using rule4 by auto
  have g5: "(truthy (js_and (query new) from') \<and> truthy (js_and (query new) to') \<and>
             (js_and (query old) from' \<noteq> js_and (query new) from' \<or>
              js_and (query old) to' \<noteq> js_and (query new) to')) = True"
    using q f t changed by auto
  have mob: "(\<not> isMobile E) = False"
    using mobile by simp
  show ?thesis
    by (simp only: L g2 g3 g4 g5 mob if_True if_False)
qed (simp_all add: updateBounds_no_map [OF new lf])

text \<open>Scenario 6: on a mobile platform \<open>from\<close> and \<open>to\<close> are both set at once.\<close>

theorem mobile_skips_endpoint_fit_witness:
  "updateBounds (env0 True) (Def props0) (Def (props0\<lparr>query := Def queryAB\<rparr>)) = Inr []"
  by (rule mobile_skips_endpoint_fit
        [OF refl refl, where lf = "\<lparr>map' = Def map0\<rparr>" and q = queryAB and f = placeA and t = placeB])
     (simp_all add: props0_def env0_def queryAB_def)

subsection \<open>C8: a single changed endpoint pans the map\<close>

text \<open>
  C8. With no popup, a map handle and rules 2 to 5 not matching: when \<open>from\<close> changed to
  a place and \<open>to\<close> did not change, the only effect is \<open>panTo\<close> of the new \<open>from\<close>; when
  \<open>to\<close> changed to a place and \<open>from\<close> did not change, it is \<open>panTo\<close> of the new \<open>to\<close>.
\<close>

theorem single_endpoint_pan:
  assumes old: "old = or_empty oldProps" and new: "new = or_empty newProps"
    and p1: "\<not> truthy (popupLocation old)" and p2: "\<not> truthy (popupLocation new)"
    and lf: "leaflet new = Def lf" and m: "map' lf = Def m"
    and view: "itineraryView old = itineraryView new"
    and rule3: "\<forall>b. itinerary new = Def b \<longrightarrow>
           (\<exists>a. itinerary old = Def a \<and>
                getLeafletItineraryBounds E a = getLeafletItineraryBounds E b)"
    and rule4: "truthy (itinerary new) \<longrightarrow>
           activeLeg new = activeLeg old \<or> activeLeg new = Null"
    and rule5: "\<not> (truthy (js_and (query new) from') \<and> truthy (js_and (query new) to') \<and>
           (js_and (query old) from' \<noteq> js_and (query new) from' \<or>
            js_and (query old) to' \<noteq> js_and (query new) to'))"
  shows "(js_and (query new) from' = Def p \<and>
          js_and (query old) from' \<noteq> Def p \<and>
          js_and (query old) to' = js_and (query new) to'
            \<longrightarrow> updateBounds E oldProps newProps = Inr [MapCall (PanTo (lat p, lon p))]) \<and>
         (js_and (query new) to' = Def p \<and>
          js_and (query old) to' \<noteq> Def p \<and>
          js_and (query old) from' = js_and (query new) from'
            \<longrightarrow> updateBounds E oldProps newProps = Inr [MapCall (PanTo (lat p, lon p))])"
proof -
  note L = ladder [OF old new p1 p2 lf m, of E]
  have g2: "(itineraryView old \<noteq> itineraryView new) = False"
    using view by simp
  note g3 = rule3_no_match [OF rule3]
  have g4: "(truthy (itinerary new) \<and> activeLeg new \<noteq> activeLeg old \<and>
             activeLeg new \<noteq> Null) = False"
    using rule4 by auto
  have g5: "(truthy (js_and (query new) from') \<and> truthy (js_and (query new) to') \<and>
             (js_and (query old) from' \<noteq> js_and (query new) from' \<or>
              js_and (query old) to' \<noteq> js_and (query new) to')) = False"
    using rule5 by simp
  show ?thesis
  proof (intro conjI impI; elim conjE)
    assume pf: "js_and (query new) from' = Def p" and ch: "js_and (query old) from' \<noteq> Def p"
    have g6: "(truthy (js_and (query new) from') \<and>
               js_and (query old) from' \<noteq> js_and (query new) from') = True"
      using pf ch by simp
    have "updateBounds E oldProps newProps =
            ebind (coords_of (js_and (query new) from')) (\<lambda>c. Inr [MapCall (PanTo c)])"
      by (simp only: L g2 g3 g4 g5 g6 if_True if_False)
    then show "updateBounds E oldProps newProps = Inr [MapCall (PanTo (lat p, lon p))]"
      by (simp add: pf coords_of_def)
  next
    assume pt: "js_and (query new) to' = Def p" and ch: "js_and (query old) to' \<noteq> Def p"
      and same: "js_and (query old) from' = js_and (query new) from'"
    have g6: "(truthy (js_and (query new) from') \<and>
               js_and (query old) from' \<noteq> js_and (query new) from') = False"
      using same by simp
    have g6': "(truthy (js_and (query new) to') \<and>
               js_and (query old) to' \<noteq> js_and (query new) to') = True"
      using pt ch by simp
    have "updateBounds E oldProps newProps =
            ebind (coords_of (js_and (query new) to')) (\<lambda>c. Inr [MapCall (PanTo c)])"
      by (simp only: L g2 g3 g4 g5 g6 g6' if_True if_False)
    then show "updateBounds E oldProps newProps = Inr [MapCall (PanTo (lat p, lon p))]"
      by (simp add: pt coords_of_def)
  qed
qed

text \<open>Scenario 1, and the same for \<open>to\<close>.\<close>

theorem single_endpoint_pan_witness:
  "updateBounds (env0 False)
     (Def (props0\<lparr>query := Def \<lparr>from' = Null, to' = Null, intermediatePlaces = Def []\<rparr>\<rparr>))
     (Def (props0\<lparr>query := Def \<lparr>from' = Def placeA, to' = Null, intermediatePlaces = Def []\<rparr>\<rparr>))
     = Inr [MapCall (PanTo (Num 47.6, Num (- 122.3)))] \<and>
   updateBounds (env0 False)
     (Def (props0\<lparr>query := Def \<lparr>from' = Null, to' = Null, intermediatePlaces = Def []\<rparr>\<rparr>))
     (Def (props0\<lparr>query := Def \<lparr>from' = Null, to' = Def placeB, intermediatePlaces = Def []\<rparr>\<rparr>))
     = Inr [MapCall (PanTo (Num 47.61, Num (- 122.33)))]"
proof -
  have a: "updateBounds (env0 False)
     (Def (props0\<lparr>query := Def \<lparr>from' = Null, to' = Null, intermediatePlaces = Def []\<rparr>\<rparr>))
     (Def (props0\<lparr>query := Def \<lparr>from' = Def placeA, to' = Null, intermediatePlaces = Def []\<rparr>\<rparr>))
     = Inr [MapCall (PanTo (lat placeA, lon placeA))]"
    by (rule single_endpoint_pan
          [OF refl refl, where lf = "\<lparr>map' = Def map0\<rparr>" and m = map0 and p = placeA,
           THEN conjunct1, THEN mp])
       (simp_all add: props0_def)
  have b: "updateBounds (env0 False)
     (Def (props0\<lparr>query := Def \<lparr>from' = Null, to' = Null, intermediatePlaces = Def []\<rparr>\<rparr>))
     (Def (props0\<lparr>query := Def \<lparr>from' = Null, to' = Def placeB, intermediatePlaces = Def []\<rparr>\<rparr>))
     = Inr [MapCall (PanTo (lat placeB, lon placeB))]"
    by (rule single_endpoint_pan
          [OF refl refl, where lf = "\<lparr>map' = Def map0\<rparr>" and m = map0 and p = placeB,
           THEN conjunct2, THEN mp])
       (simp_all add: props0_def)
  show ?thesis
    using a b by (simp add: placeA_def placeB_def)
qed

subsection \<open>C9: a vanished itinerary does not refit the map\<close>

text \<open>
  C9. With no popup, a map handle and an unchanged \<open>itineraryView\<close>: when the previous
  props hold an itinerary and the current ones hold none, rule 3 does not fire (its guard
  needs the current itinerary's bounds), nor do the leg and step rules, which need a
  current itinerary: the outcome is exactly what rules 5 to 7 (endpoints, intermediate
  places) decide, and nothing when none of them matches.
\<close>

theorem itinerary_removed_no_refit:
  assumes old: "old = or_empty oldProps" and new: "new = or_empty newProps"
    and p1: "\<not> truthy (popupLocation old)" and p2: "\<not> truthy (popupLocation new)"
    and lf: "leaflet new = Def lf" and m: "map' lf = Def m"
    and view: "itineraryView old = itineraryView new"
    and had: "itinerary old = Def a"
    and gone: "\<not> truthy (itinerary new)"
    and nf: "newFrom = js_and (query new) from'" and nt: "newTo = js_and (query new) to'"
    and "oldFrom = js_and (query old) from'" and "oldTo = js_and (query old) to'"
    and "oldInt = js_and (query old) intermediatePlaces"
    and ni: "newInt = js_and (query new) intermediatePlaces"
  shows "updateBounds E oldProps newProps =
    (if truthy newFrom \<and> truthy newTo \<and> (oldFrom \<noteq> newFrom \<or> oldTo \<noteq> newTo) then
       if \<not> isMobile E then
         ebind (coords_of newFrom) (\<lambda>f.
         ebind (coords_of newTo) (\<lambda>t.
         ebind (extendBoundsByPlaces E (L_bounds [f, t]) newInt) (\<lambda>bounds.
         ebind (getBottomLeft bounds) (\<lambda>(left, bottom).
         ebind (getTopRight bounds) (\<lambda>(right, top).
           Inr [MapCall (FitBounds (Corners (left, bottom) (right, top))
                           (Some [(''padding'', [30, 30])]))])))))
       else Inr []
     else if truthy newFrom \<and> oldFrom \<noteq> newFrom then
       ebind (coords_of newFrom) (\<lambda>c. Inr [MapCall (PanTo c)])
     else if truthy newTo \<and> oldTo \<noteq> newTo then
       ebind (coords_of newTo) (\<lambda>c. Inr [MapCall (PanTo c)])
     else if truthy newInt \<and> oldInt \<noteq> newInt then
       ebind (extendBoundsByPlaces E (getBounds m) newInt) (\<lambda>bounds.
         Inr [MapCall (FitBounds (Bounds (Def bounds)) None)])
     else Inr [])"
proof -
  note L = ladder [OF old new p1 p2 lf m, of E]
  have g2: "(itineraryView old \<noteq> itineraryView new) = False"
    using view by simp
  have g3: "((\<not> truthy (js_and (itinerary old) (\<lambda>i. Def (getLeafletItineraryBounds E i))) \<and>
      truthy (js_and (itinerary new) (\<lambda>i. Def (getLeafletItineraryBounds E i)))) \<or>
     (truthy (js_and (itinerary old) (\<lambda>i. Def (getLeafletItineraryBounds E i))) \<and>
      truthy (js_and (itinerary new) (\<lambda>i. Def (getLeafletItineraryBounds E i))) \<and>
      \<not> equals (js_and (itinerary old) (\<lambda>i. Def (getLeafletItineraryBounds E i)))
                (js_and (itinerary new) (\<lambda>i. Def (getLeafletItineraryBounds E i))))) = False"
    unfolding rule3_guard using gone by auto
  have g4: "(truthy (itinerary new) \<and> activeLeg new \<noteq> activeLeg old \<and>
             activeLeg new \<noteq> Null) = False"
    using gone by simp
  have g8: "(truthy (itinerary new) \<and> activeLeg new \<noteq> Null \<and> activeStep new \<noteq> Null \<and>
             activeStep new \<noteq> activeStep old) = False"
    using gone by simp
  show ?thesis
    unfolding assms(10-)
    by (simp only: L g2 g3 g4 g8 if_False if_cancel BOUNDS_PADDING_def)
qed

text \<open>
  The itinerary vanishes while the endpoints are swapped: rule 5 fits to the endpoints.
  It vanishes and nothing else changes: no effect.
\<close>

theorem itinerary_removed_no_refit_witness:
  "updateBounds (env0 False) (Def props1)
      (Def (props1\<lparr>itinerary := Null,
             query := Def \<lparr>from' = Def placeB, to' = Def placeA, intermediatePlaces = Def []\<rparr>\<rparr>)) =
     Inr [MapCall (FitBounds (Corners (Num 47.6, Num (- 122.3)) (Num 47.61, Num (- 122.33)))
                     (Some [(''padding'', [30, 30])]))] \<and>
   updateBounds (env0 False) (Def props1) (Def (props1\<lparr>itinerary := Null\<rparr>)) = Inr []"
proof -
  have a: "updateBounds (env0 False) (Def props1)
      (Def (props1\<lparr>itinerary := Null,
             query := Def \<lparr>from' = Def placeB, to' = Def placeA, intermediatePlaces = Def []\<rparr>\<rparr>)) =
     Inr [MapCall (FitBounds (Corners (Num 47.6, Num (- 122.3)) (Num 47.61, Num (- 122.33)))
                     (Some [(''padding'', [30, 30])]))]"
    by (rule itinerary_removed_no_refit
          [OF refl refl _ _ _ _ _ _ _ refl refl refl refl refl refl,
           where lf = "\<lparr>map' = Def map0\<rparr>" and m = map0 and a = itin1, THEN trans])
       (simp_all add: props1_def props0_def queryAB_def env0_def placeA_def placeB_def
          coords_of_def L_bounds_def extendBoundsByPlaces_def)
  have b: "updateBounds (env0 False) (Def props1) (Def (props1\<lparr>itinerary := Null\<rparr>)) = Inr []"
    by (rule itinerary_removed_no_refit
          [OF refl refl _ _ _ _ _ _ _ refl refl refl refl refl refl,
           where lf = "\<lparr>map' = Def map0\<rparr>" and m = map0 and a = itin1, THEN trans])
       (simp_all add: props1_def props0_def queryAB_def)
  show ?thesis using a b by simp
qed

subsection \<open>C10: the deferred task always forces a resize\<close>

text \<open>
  C10. With no popup and a map handle: when \<open>itineraryView\<close> differs between the previous
  and the current props, \<open>updateBounds\<close> schedules one task, with a delay of 250, and does
  nothing else; when that task runs, its first call on the map is
  \<open>invalidateSize(true)\<close>, and without a current itinerary that is its only call.
\<close>

theorem view_change_invalidates_size:
  assumes old: "old = or_empty oldProps" and new: "new = or_empty newProps"
    and p1: "\<not> truthy (popupLocation old)" and p2: "\<not> truthy (popupLocation new)"
    and lf: "leaflet new = Def lf" and m: "map' lf = Def m"
    and view: "itineraryView old \<noteq> itineraryView new"
    and t: "t = \<lparr>t_newProps = new,
                  t_bounds = js_and (itinerary new) (\<lambda>i. Def (getLeafletItineraryBounds E i)),
                  t_map = m\<rparr>"
  shows "updateBounds E oldProps newProps = Inr [SetTimeout t 250] \<and>
         (\<exists>rest. fst (timeout_callback E t) = InvalidateSize True # rest) \<and>
         (\<not> truthy (itinerary new) \<longrightarrow> timeout_callback E t = ([InvalidateSize True], None))"
proof (intro conjI impI)
  note L = ladder [OF old new p1 p2 lf m, of E]
  have g2: "(itineraryView old \<noteq> itineraryView new) = True"
    using view by simp
  show "updateBounds E oldProps newProps = Inr [SetTimeout t 250]"
    by (simp only: L g2 if_True fitItineraryViewToMap_def t)
  show "\<exists>rest. fst (timeout_callback E t) = InvalidateSize True # rest"
    by (simp add: timeout_callback_def Let_def split: sum.split)
  show "timeout_callback E t = ([InvalidateSize True], None)" if "\<not> truthy (itinerary new)"
    using that by (simp add: timeout_callback_def t)
qed

text \<open>The view mode changes while there is no itinerary.\<close>

theorem view_change_invalidates_size_witness:
  "updateBounds (env0 False) (Def props0) (Def (props0\<lparr>itineraryView := Def ''detail''\<rparr>)) =
     Inr [SetTimeout \<lparr>t_newProps = props0\<lparr>itineraryView := Def ''detail''\<rparr>,
                      t_bounds = Null, t_map = map0\<rparr> 250] \<and>
   timeout_callback (env0 False)
     \<lparr>t_newProps = props0\<lparr>itineraryView := Def ''detail''\<rparr>, t_bounds = Null, t_map = map0\<rparr> =
     ([InvalidateSize True], None)"
  using view_change_invalidates_size
    [OF refl refl _ _ _ _ _ refl, where lf = "\<lparr>map' = Def map0\<rparr>" and m = map0
      and oldProps = "Def props0"
      and newProps = "Def (props0\<lparr>itineraryView := Def ''detail''\<rparr>)" and E = "env0 False"]
  by (simp add: props0_def)

end
